theory Spec2Isabelle
  imports Complex_Main "HOL-Library.Log_Nat"
begin

section \<open>Trimmed serendipity elements (FIAT/Sminus.py)\<close>

text \<open>
  A shallow embedding of \<^verbatim>\<open>FIAT/Sminus.py\<close>: the counting helpers, the generators of
  the symbolic basis terms, the two element constructors, the degree-of-freedom
  allocation of the common base class, and \<^verbatim>\<open>tabulate\<close> with its cache of
  differentiated bases.  Python integers are \<^typ>\<open>int\<close>, tuples and lists are lists,
  exceptions are values of \<open>py_error\<close> returned on the left of a sum.
\<close>

subsection \<open>Exceptions\<close>

text \<open>
  The exception classes the module raises or can run into.  \<open>isinstance\<close> follows
  Python's class hierarchy: every class below is a subclass of \<^verbatim>\<open>Exception\<close>, and no
  two of the others are related.
\<close>

datatype exc_class =
    Exception | NotImplementedError | UnboundLocalError | IndexError | KeyError | TypeError
  | ZeroDivisionError | OverflowError

datatype py_error = Raise exc_class string

fun isinstance :: "py_error \<Rightarrow> exc_class \<Rightarrow> bool" where
  "isinstance (Raise c msg) Exception = True"
| "isinstance (Raise c msg) c' = (c = c')"

fun message :: "py_error \<Rightarrow> string" where
  "message (Raise c msg) = msg"

subsection \<open>Symbolic expressions\<close>

text \<open>
  The module builds its basis from sympy expressions over the three module-level symbols
  \<^verbatim>\<open>x, y, z\<close>.  The expressions are kept as the syntax trees the source writes down:
  sympy's own normal forms are not part of this repository.  \<open>Leg n e\<close> is
  \<^verbatim>\<open>legendre(n, e)\<close>; \<open>Num\<close> holds a Python number (vertex coordinates are taken to be
  rationals).
\<close>

datatype var = X | Y | Z

datatype expr =
    Num rat
  | Sym var
  | Neg expr
  | Add expr expr
  | Sub expr expr
  | Mul expr expr
  | Div expr expr
  | Leg int expr

instantiation expr :: "{plus, minus, uminus, times}"
begin

definition plus_expr :: "expr \<Rightarrow> expr \<Rightarrow> expr" where
  "plus_expr a b = Add a b"

definition minus_expr :: "expr \<Rightarrow> expr \<Rightarrow> expr" where
  "minus_expr a b = Sub a b"

definition uminus_expr :: "expr \<Rightarrow> expr" where
  "uminus_expr a = Neg a"

definition times_expr :: "expr \<Rightarrow> expr \<Rightarrow> expr" where
  "times_expr a b = Mul a b"

instance ..

end

declare plus_expr_def [simp] minus_expr_def [simp] uminus_expr_def [simp] times_expr_def [simp]

text \<open>
  The meaning of an expression under a substitution of numbers for symbols: Legendre
  polynomials by Bonnet's recurrence, \<open>None\<close> where the value is not a number (a symbol
  without a value, a division by zero, a negative Legendre index).
\<close>

fun legendre_val :: "nat \<Rightarrow> rat \<Rightarrow> rat" where
  "legendre_val 0 t = 1"
| "legendre_val (Suc 0) t = t"
| "legendre_val (Suc (Suc n)) t =
     ((2 * of_nat n + 3) * t * legendre_val (Suc n) t - (of_nat n + 1) * legendre_val n t)
       / (of_nat n + 2)"

fun lift2 :: "(rat \<Rightarrow> rat \<Rightarrow> rat) \<Rightarrow> rat option \<Rightarrow> rat option \<Rightarrow> rat option" where
  "lift2 f (Some a) (Some b) = Some (f a b)"
| "lift2 f a b = None"

fun eval_expr :: "(var \<Rightarrow> rat option) \<Rightarrow> expr \<Rightarrow> rat option" where
  "eval_expr env (Num c) = Some c"
| "eval_expr env (Sym v) = env v"
| "eval_expr env (Neg a) = map_option uminus (eval_expr env a)"
| "eval_expr env (Add a b) = lift2 (+) (eval_expr env a) (eval_expr env b)"
| "eval_expr env (Sub a b) = lift2 (-) (eval_expr env a) (eval_expr env b)"
| "eval_expr env (Mul a b) = lift2 (*) (eval_expr env a) (eval_expr env b)"
| "eval_expr env (Div a b) =
     (if eval_expr env b = Some 0 then None
      else lift2 (/) (eval_expr env a) (eval_expr env b))"
| "eval_expr env (Leg n a) =
     (if n < 0 then None else map_option (legendre_val (nat n)) (eval_expr env a))"

subsection \<open>Python helpers\<close>

text \<open>\<^verbatim>\<open>range(a, b)\<close>, and indexing a pair such as \<^verbatim>\<open>dx[0]\<close>, \<^verbatim>\<open>dx[1]\<close> (the module only
  ever indexes the blending pairs with 0 and 1).\<close>

definition py_range :: "int \<Rightarrow> int \<Rightarrow> int list" where
  "py_range a b = [a..b - 1]"

definition ix :: "expr \<times> expr \<Rightarrow> int \<Rightarrow> expr" where
  "ix p k = (if k = 0 then fst p else snd p)"

subsection \<open>Python's \<^verbatim>\<open>int(a / b)\<close> on integers\<close>

text \<open>
  The module divides integers with \<^verbatim>\<open>/\<close> and truncates with \<^verbatim>\<open>int\<close>.  Python's true
  division of two integers is the IEEE double nearest to the exact quotient (53
  significant bits, a tie going to the even significand), and an \<^verbatim>\<open>OverflowError\<close> when
  that is beyond the largest double; \<^verbatim>\<open>int\<close> then drops the fraction.  For a quotient
  \<open>q \<ge> 1\<close> with \<open>n\<close> bits before the point the double is \<open>m * 2^e\<close> with \<open>e = n - 53\<close> and
  \<open>m\<close> the rounded \<open>q / 2^e\<close>; a quotient below 1 truncates to 0 unless it rounds up
  to 1.0, which it does from \<open>1 - 2^-54\<close> on.
\<close>

definition round_half_even :: "rat \<Rightarrow> int" where
  "round_half_even q =
     (let f = \<lfloor>q\<rfloor>; r = q - of_int f
      in if r < 1 / 2 then f
         else if 1 / 2 < r then f + 1
         else if even f then f else f + 1)"

definition py_int_truediv :: "int \<Rightarrow> int \<Rightarrow> py_error + int" where
  "py_int_truediv a b =
     (if b = 0 then Inl (Raise ZeroDivisionError ''division by zero'')
      else
        (let q = \<bar>of_int a / of_int b :: rat\<bar>;
             s = (if (a < 0) \<noteq> (b < 0) then - 1 else 1)
         in
         if q < 1 then Inr (if 1 - 1 / 2 ^ 54 \<le> q then s else 0)
         else
           (let e = bitlen (\<bar>a\<bar> div \<bar>b\<bar>) - 53 in
            if 0 \<le> e then
              (let v = round_half_even (q / 2 ^ nat e) * 2 ^ nat e in
               if 2 ^ 1024 \<le> v then
                 Inl (Raise OverflowError ''integer division result too large for a float'')
               else Inr (s * v))
            else Inr (s * (round_half_even (q * 2 ^ nat (- e)) div 2 ^ nat (- e))))))"

subsection \<open>Counting helpers\<close>

definition triangular_number :: "int \<Rightarrow> py_error + int" where
  "triangular_number n = py_int_truediv ((n + 1) * n) 2"

definition choose_ijk_total :: "int \<Rightarrow> py_error + int" where
  "choose_ijk_total degree =
     (let top = fold (\<lambda>i top. i * top) (py_range 1 (2 + degree + 1)) 1;
          bottom = fold (\<lambda>i bottom. i * bottom) (py_range 1 (degree + 1)) 1
      in py_int_truediv top (2 * bottom))"

subsection \<open>Basis term generators, two dimensions\<close>

text \<open>A basis entry is the list of its components; the literal \<^verbatim>\<open>0\<close> of the source is
  \<open>Num 0\<close>.  \<open>dx\<close>, \<open>dy\<close>, \<open>dz\<close> are the blending pairs, \<open>x_mid\<close>, \<open>y_mid\<close>, \<open>z_mid\<close> the
  midpoint substitutes.\<close>

definition e_lambda_1_2d_part_one ::
  "int \<Rightarrow> expr \<times> expr \<Rightarrow> expr \<times> expr \<Rightarrow> expr \<Rightarrow> expr \<Rightarrow> expr list list" where
  "e_lambda_1_2d_part_one deg dx dy x_mid y_mid =
     map (\<lambda>j. [Num 0, - Leg j y_mid * ix dx 0]) (py_range 0 deg) @
     map (\<lambda>j. [Num 0, - Leg j y_mid * ix dx 1]) (py_range 0 deg) @
     map (\<lambda>j. [- Leg j x_mid * ix dy 0, Num 0]) (py_range 0 deg) @
     map (\<lambda>j. [- Leg j x_mid * ix dy 1, Num 0]) (py_range 0 deg)"

definition e_lambda_tilde_1_2d_part_two ::
  "int \<Rightarrow> expr \<times> expr \<Rightarrow> expr \<times> expr \<Rightarrow> expr \<Rightarrow> expr \<Rightarrow> expr list list" where
  "e_lambda_tilde_1_2d_part_two deg dx dy x_mid y_mid =
     [[- Leg deg x_mid * ix dy 0,
       Div (- Leg (deg - 1) x_mid * ix dx 0 * ix dx 1) (Num (of_int (deg + 1)))]] @
     [[- Leg deg x_mid * ix dy 1,
       Div (Leg (deg - 1) x_mid * ix dx 0 * ix dx 1) (Num (of_int (deg + 1)))]] @
     [[Div (- Leg (deg - 1) y_mid * ix dy 0 * ix dy 1) (Num (of_int (deg + 1))),
       - Leg deg y_mid * ix dx 0]] @
     [[Div (Leg (deg - 1) y_mid * ix dy 0 * ix dy 1) (Num (of_int (deg + 1))),
       - Leg deg y_mid * ix dx 1]]"

definition e_lambda_1_2d ::
  "int \<Rightarrow> expr \<times> expr \<Rightarrow> expr \<times> expr \<Rightarrow> expr \<Rightarrow> expr \<Rightarrow> expr list list" where
  "e_lambda_1_2d deg dx dy x_mid y_mid =
     (let EL = e_lambda_1_2d_part_one deg dx dy x_mid y_mid;
          ELTilde = e_lambda_tilde_1_2d_part_two deg dx dy x_mid y_mid
      in EL @ ELTilde)"

definition determine_f_lambda_portions_2d :: "int \<Rightarrow> int list" where
  "determine_f_lambda_portions_2d deg = (if deg < 2 then [] else py_range 2 deg)"

definition f_lambda_1_2d_pieces ::
  "int \<Rightarrow> expr \<times> expr \<Rightarrow> expr \<times> expr \<Rightarrow> expr \<Rightarrow> expr \<Rightarrow> expr list list" where
  "f_lambda_1_2d_pieces current_deg dx dy x_mid y_mid =
     (if current_deg = 2 then
        [[Leg 0 x_mid * Leg 0 y_mid * ix dy 0 * ix dy 1, Num 0]] @
        [[Num 0, Leg 0 x_mid * Leg 0 y_mid * ix dx 0 * ix dx 1]]
      else
        (let target_power = current_deg - 2 in
         concat (map (\<lambda>j. let k = target_power - j in
             [[Leg j x_mid * Leg k y_mid * ix dy 0 * ix dy 1, Num 0]] @
             [[Num 0, Leg j x_mid * Leg k y_mid * ix dx 0 * ix dx 1]])
           (py_range 0 (target_power + 1)))))"

definition f_lambda_1_2d_trim ::
  "int \<Rightarrow> expr \<times> expr \<Rightarrow> expr \<times> expr \<Rightarrow> expr \<Rightarrow> expr \<Rightarrow> expr list list" where
  "f_lambda_1_2d_trim deg dx dy x_mid y_mid =
     concat (map (\<lambda>i. f_lambda_1_2d_pieces i dx dy x_mid y_mid)
               (determine_f_lambda_portions_2d deg))"

definition f_lambda_1_2d_tilde ::
  "int \<Rightarrow> expr \<times> expr \<Rightarrow> expr \<times> expr \<Rightarrow> expr \<Rightarrow> expr \<Rightarrow> expr list list" where
  "f_lambda_1_2d_tilde deg dx dy x_mid y_mid =
     [[Leg (deg - 2) y_mid * ix dy 0 * ix dy 1, Num 0]] @
     [[Num 0, Leg (deg - 2) x_mid * ix dx 0 * ix dx 1]] @
     map (\<lambda>k. [Leg k x_mid * Leg (deg - k - 2) y_mid * ix dy 0 * ix dy 1,
                - Leg (k - 1) x_mid * Leg (deg - k - 1) y_mid * ix dx 0 * ix dx 1])
       (py_range 1 (deg - 1))"

definition trimmed_f_lambda_2d ::
  "int \<Rightarrow> expr \<times> expr \<Rightarrow> expr \<times> expr \<Rightarrow> expr \<Rightarrow> expr \<Rightarrow> expr list list" where
  "trimmed_f_lambda_2d deg dx dy x_mid y_mid =
     (let FL = f_lambda_1_2d_trim deg dx dy x_mid y_mid;
          FLT = f_lambda_1_2d_tilde deg dx dy x_mid y_mid
      in FL @ FLT)"

subsection \<open>Basis term generators, three dimensions\<close>

definition e_lambda_1_3d_piece ::
  "int \<Rightarrow> expr \<times> expr \<Rightarrow> expr \<times> expr \<Rightarrow> expr \<times> expr \<Rightarrow> expr \<Rightarrow> expr \<Rightarrow> expr
     \<Rightarrow> expr list list" where
  "e_lambda_1_3d_piece current_deg dx dy dz x_mid y_mid z_mid =
     [[Num 0, Num 0, Leg current_deg z_mid * ix dx 0 * ix dy 1]] @
     [[Num 0, Num 0, Leg current_deg z_mid * ix dx 1 * ix dy 1]] @
     [[Num 0, Num 0, Leg current_deg z_mid * ix dx 1 * ix dy 0]] @
     [[Num 0, Num 0, Leg current_deg z_mid * ix dx 0 * ix dy 0]] @
     [[Num 0, Leg current_deg y_mid * ix dx 0 * ix dz 1, Num 0]] @
     [[Num 0, Leg current_deg y_mid * ix dx 1 * ix dz 1, Num 0]] @
     [[Num 0, Leg current_deg y_mid * ix dx 1 * ix dz 0, Num 0]] @
     [[Num 0, Leg current_deg y_mid * ix dx 0 * ix dz 0, Num 0]] @
     [[Leg current_deg x_mid * ix dy 0 * ix dz 0, Num 0, Num 0]] @
     [[Leg current_deg x_mid * ix dy 1 * ix dz 0, Num 0, Num 0]] @
     [[Leg current_deg x_mid * ix dy 1 * ix dz 1, Num 0, Num 0]] @
     [[Leg current_deg x_mid * ix dy 0 * ix dz 1, Num 0, Num 0]]"

definition e_lambda_1_3d_trimmed ::
  "int \<Rightarrow> expr \<times> expr \<Rightarrow> expr \<times> expr \<Rightarrow> expr \<times> expr \<Rightarrow> expr \<Rightarrow> expr \<Rightarrow> expr
     \<Rightarrow> expr list list" where
  "e_lambda_1_3d_trimmed max_deg dx dy dz x_mid y_mid z_mid =
     concat (map (\<lambda>i. e_lambda_1_3d_piece i dx dy dz x_mid y_mid z_mid) (py_range 0 max_deg))"

definition determine_f_lambda_1_portions_3d :: "int \<Rightarrow> int list" where
  "determine_f_lambda_1_portions_3d deg = (if deg < 2 then [] else py_range 2 deg)"

definition f_lambda_1_3d_pieces ::
  "int \<Rightarrow> expr \<times> expr \<Rightarrow> expr \<times> expr \<Rightarrow> expr \<times> expr \<Rightarrow> expr \<Rightarrow> expr \<Rightarrow> expr
     \<Rightarrow> expr list list" where
  "f_lambda_1_3d_pieces current_deg dx dy dz x_mid y_mid z_mid =
     (if current_deg = 2 then
        (let j = 0; k = 0 in
         [[Leg j x_mid * Leg k y_mid * ix dz 0 * ix dy 0 * ix dy 1, Num 0, Num 0]] @
         [[Leg j x_mid * Leg k y_mid * ix dz 1 * ix dy 0 * ix dy 1, Num 0, Num 0]] @
         [[Leg j x_mid * Leg k z_mid * ix dy 0 * ix dz 0 * ix dz 1, Num 0, Num 0]] @
         [[Leg j x_mid * Leg k z_mid * ix dy 1 * ix dz 0 * ix dz 1, Num 0, Num 0]] @
         [[Num 0, Leg j y_mid * Leg k x_mid * ix dz 0 * ix dx 0 * ix dx 1, Num 0]] @
         [[Num 0, Leg j y_mid * Leg k x_mid * ix dz 1 * ix dx 0 * ix dx 1, Num 0]] @
         [[Num 0, Leg j y_mid * Leg k z_mid * ix dx 0 * ix dz 0 * ix dz 1, Num 0]] @
         [[Num 0, Leg j y_mid * Leg k z_mid * ix dx 1 * ix dz 0 * ix dz 1, Num 0]] @
         [[Num 0, Num 0, Leg j z_mid * Leg k y_mid * ix dy 0 * ix dx 0 * ix dx 1]] @
         [[Num 0, Num 0, Leg j z_mid * Leg k y_mid * ix dy 1 * ix dx 0 * ix dx 1]] @
         [[Num 0, Num 0, Leg j z_mid * Leg k x_mid * ix dx 0 * ix dy 0 * ix dy 1]] @
         [[Num 0, Num 0, Leg j z_mid * Leg k x_mid * ix dx 1 * ix dy 0 * ix dy 1]])
      else
        (let target_power = current_deg - 2 in
         concat (map (\<lambda>j. let k = target_power - j in
             [[Leg j x_mid * Leg k y_mid * ix dz 0 * ix dy 0 * ix dy 1, Num 0, Num 0]] @
             [[Leg j x_mid * Leg k y_mid * ix dz 1 * ix dy 0 * ix dy 1, Num 0, Num 0]] @
             [[Leg j x_mid * Leg k z_mid * ix dy 0 * ix dz 0 * ix dz 1, Num 0, Num 0]] @
             [[Leg j x_mid * Leg k z_mid * ix dy 1 * ix dz 0 * ix dz 1, Num 0, Num 0]] @
             [[Num 0, Leg j y_mid * Leg k x_mid * ix dz 0 * ix dx 0 * ix dx 1, Num 0]] @
             [[Num 0, Leg j y_mid * Leg k x_mid * ix dz 1 * ix dx 0 * ix dx 1, Num 0]] @
             [[Num 0, Leg j y_mid * Leg k z_mid * ix dx 0 * ix dz 0 * ix dz 1, Num 0]] @
             [[Num 0, Leg j y_mid * Leg k z_mid * ix dx 1 * ix dz 0 * ix dz 1, Num 0]] @
             [[Num 0, Num 0, Leg j z_mid * Leg k y_mid * ix dy 0 * ix dx 0 * ix dx 1]] @
             [[Num 0, Num 0, Leg j z_mid * Leg k y_mid * ix dy 1 * ix dx 0 * ix dx 1]] @
             [[Num 0, Num 0, Leg j z_mid * Leg k x_mid * ix dx 0 * ix dy 0 * ix dy 1]] @
             [[Num 0, Num 0, Leg j z_mid * Leg k x_mid * ix dx 1 * ix dy 0 * ix dy 1]])
           (py_range 0 (target_power + 1)))))"

definition f_lambda_1_3d_tilde ::
  "int \<Rightarrow> expr \<times> expr \<Rightarrow> expr \<times> expr \<Rightarrow> expr \<times> expr \<Rightarrow> expr \<Rightarrow> expr \<Rightarrow> expr
     \<Rightarrow> expr list list" where
  "f_lambda_1_3d_tilde max_deg dx dy dz x_mid y_mid z_mid =
     [[Leg (max_deg - 2) y_mid * ix dz 0 * ix dy 0 * ix dy 1, Num 0, Num 0]] @
     [[Leg (max_deg - 2) y_mid * ix dz 1 * ix dy 0 * ix dy 1, Num 0, Num 0]] @
     [[Leg (max_deg - 2) z_mid * ix dy 0 * ix dz 0 * ix dz 1, Num 0, Num 0]] @
     [[Leg (max_deg - 2) z_mid * ix dy 1 * ix dz 0 * ix dz 1, Num 0, Num 0]] @
     [[Num 0, Leg (max_deg - 2) x_mid * ix dz 0 * ix dx 0 * ix dx 1, Num 0]] @
     [[Num 0, Leg (max_deg - 2) x_mid * ix dz 1 * ix dx 0 * ix dx 1, Num 0]] @
     [[Num 0, Leg (max_deg - 2) z_mid * ix dx 0 * ix dz 0 * ix dz 1, Num 0]] @
     [[Num 0, Leg (max_deg - 2) z_mid * ix dx 1 * ix dz 0 * ix dz 1, Num 0]] @
     [[Num 0, Num 0, Leg (max_deg - 2) x_mid * ix dy 0 * ix dx 0 * ix dx 1]] @
     [[Num 0, Num 0, Leg (max_deg - 2) x_mid * ix dy 1 * ix dx 0 * ix dx 1]] @
     [[Num 0, Num 0, Leg (max_deg - 2) y_mid * ix dx 0 * ix dy 0 * ix dy 1]] @
     [[Num 0, Num 0, Leg (max_deg - 2) y_mid * ix dx 1 * ix dy 0 * ix dy 1]] @
     concat (map (\<lambda>j. concat (map (\<lambda>k.
         [[Leg j x_mid * Leg (max_deg - j - 2) y_mid * ix dz k * ix dy 0 * ix dy 1,
           - Leg (j - 1) x_mid * Leg (max_deg - j - 1) y_mid * ix dz k * ix dx 0 * ix dx 1,
           Num 0]] @
         [[Leg j x_mid * Leg (max_deg - j - 2) z_mid * ix dy k * ix dz 0 * ix dz 1,
           Num 0,
           - Leg (j - 1) x_mid * Leg (max_deg - j - 1) z_mid * ix dy k * ix dx 0 * ix dx 1]] @
         [[Num 0,
           Leg j y_mid * Leg (max_deg - j - 2) z_mid * ix dx k * ix dz 0 * ix dz 1,
           - Leg (j - 1) y_mid * Leg (max_deg - j - 1) z_mid * ix dx k * ix dy 0 * ix dy 1]])
       (py_range 0 2))) (py_range 1 (max_deg - 1)))"

definition f_lambda_1_3d_trim ::
  "int \<Rightarrow> expr \<times> expr \<Rightarrow> expr \<times> expr \<Rightarrow> expr \<times> expr \<Rightarrow> expr \<Rightarrow> expr \<Rightarrow> expr
     \<Rightarrow> expr list list" where
  "f_lambda_1_3d_trim deg dx dy dz x_mid y_mid z_mid =
     concat (map (\<lambda>i. f_lambda_1_3d_pieces i dx dy dz x_mid y_mid z_mid)
               (determine_f_lambda_1_portions_3d deg))"

definition trimmed_f_lambda_3d ::
  "int \<Rightarrow> expr \<times> expr \<Rightarrow> expr \<times> expr \<Rightarrow> expr \<times> expr \<Rightarrow> expr \<Rightarrow> expr \<Rightarrow> expr
     \<Rightarrow> expr list list" where
  "trimmed_f_lambda_3d deg dx dy dz x_mid y_mid z_mid =
     (let FL = f_lambda_1_3d_trim deg dx dy dz x_mid y_mid z_mid;
          FLT = f_lambda_1_3d_tilde deg dx dy dz x_mid y_mid z_mid
      in FL @ FLT)"

text \<open>The loop variables \<^verbatim>\<open>x, y, z\<close> of \<^verbatim>\<open>determine_I_lambda_1_portions_3d\<close> are local to
  that function (they shadow the module's symbols there only); they are \<open>a\<close>, \<open>b\<close>, \<open>c\<close>
  here.\<close>

definition determine_I_lambda_1_portions_3d :: "int \<Rightarrow> (int \<times> int \<times> int) list" where
  "determine_I_lambda_1_portions_3d deg =
     (if deg < 4 then []
      else
        (let Degs = concat (map (\<lambda>a. concat (map (\<lambda>b. map (\<lambda>c. (a, b, c))
                        (py_range 0 (deg - 3 - a - b)))
                      (py_range 0 (deg - 3 - a))))
                    (py_range 0 (deg - 3)))
         in filter (\<lambda>degs. fst degs + fst (snd degs) + snd (snd degs) = deg - 4) Degs))"

definition I_lambda_1_3d ::
  "int \<Rightarrow> expr \<times> expr \<Rightarrow> expr \<times> expr \<Rightarrow> expr \<times> expr \<Rightarrow> expr \<Rightarrow> expr \<Rightarrow> expr
     \<Rightarrow> expr list list" where
  "I_lambda_1_3d deg dx dy dz x_mid y_mid z_mid =
     (let DegsOfIteration = determine_I_lambda_1_portions_3d deg in
      concat (map (\<lambda>Degs.
          [[Leg (fst Degs) x_mid * Leg (fst (snd Degs)) y_mid * Leg (snd (snd Degs)) z_mid *
              ix dy 0 * ix dy 1 * ix dz 0 * ix dz 1, Num 0, Num 0]] @
          [[Num 0, Leg (fst Degs) x_mid * Leg (fst (snd Degs)) y_mid * Leg (snd (snd Degs)) z_mid *
              ix dx 0 * ix dx 1 * ix dz 0 * ix dz 1, Num 0]] @
          [[Num 0, Num 0, Leg (fst Degs) x_mid * Leg (fst (snd Degs)) y_mid * Leg (snd (snd Degs)) z_mid *
              ix dy 0 * ix dy 1 * ix dy 0 * ix dy 1]])
        DegsOfIteration))"

definition I_lambda_1_tilde_3d ::
  "int \<Rightarrow> expr \<times> expr \<Rightarrow> expr \<times> expr \<Rightarrow> expr \<times> expr \<Rightarrow> expr \<Rightarrow> expr \<Rightarrow> expr
     \<Rightarrow> expr list list" where
  "I_lambda_1_tilde_3d deg dx dy dz x_mid y_mid z_mid =
     [[Leg (deg - 4) y_mid * ix dy 0 * ix dy 1 * ix dz 0 * ix dz 1, Num 0, Num 0]] @
     [[Leg (deg - 4) z_mid * ix dy 0 * ix dy 1 * ix dz 0 * ix dz 1, Num 0, Num 0]] @
     [[Num 0, Leg (deg - 4) x_mid * ix dx 0 * ix dx 1 * ix dz 0 * ix dz 1, Num 0]] @
     [[Num 0, Leg (deg - 4) z_mid * ix dx 0 * ix dx 1 * ix dz 0 * ix dz 1, Num 0]] @
     [[Num 0, Num 0, Leg (deg - 4) x_mid * ix dx 0 * ix dx 1 * ix dy 0 * ix dy 1]] @
     [[Num 0, Num 0, Leg (deg - 4) y_mid * ix dx 0 * ix dx 1 * ix dy 0 * ix dy 1]] @
     concat (map (\<lambda>j.
         [[Leg j x_mid * Leg (deg - j - 4) y_mid * ix dy 0 * ix dy 1 * ix dz 0 * ix dz 1,
           - Leg (j - 1) x_mid * Leg (deg - j - 3) y_mid * ix dx 0 * ix dx 1 * ix dz 0 * ix dz 1,
           Num 0]] @
         [[Leg j x_mid * Leg (deg - j - 4) z_mid * ix dy 0 * ix dy 1 * ix dz 0 * ix dz 1,
           Num 0,
           - Leg (j - 1) x_mid * Leg (deg - j - 3) z_mid * ix dx 0 * ix dx 1 * ix dy 0 * ix dy 1]] @
         (if deg > 5 then
            [[Num 0,
              Leg j y_mid * Leg (deg - j - 4) z_mid * ix dx 0 * ix dx 1 * ix dz 0 * ix dz 1,
              - Leg (j - 1) y_mid * Leg (deg - j - 3) z_mid * ix dx 0 * ix dx 1 * ix dy 0 * ix dy 1]]
          else []))
       (py_range 1 (deg - 3)))"

subsection \<open>Errors in sequence, lists and dictionaries\<close>

fun bind_err :: "py_error + 'a \<Rightarrow> ('a \<Rightarrow> py_error + 'b) \<Rightarrow> py_error + 'b" where
  "bind_err (Inl e) f = Inl e"
| "bind_err (Inr a) f = f a"

fun mapM_err :: "('a \<Rightarrow> py_error + 'b) \<Rightarrow> 'a list \<Rightarrow> py_error + 'b list" where
  "mapM_err f [] = Inr []"
| "mapM_err f (a # as) =
     bind_err (f a) (\<lambda>b. bind_err (mapM_err f as) (\<lambda>bs. Inr (b # bs)))"

fun fold_err :: "('a \<Rightarrow> 'b \<Rightarrow> py_error + 'b) \<Rightarrow> 'a list \<Rightarrow> 'b \<Rightarrow> py_error + 'b" where
  "fold_err f [] acc = Inr acc"
| "fold_err f (a # as) acc = bind_err (f a acc) (fold_err f as)"

text \<open>Python indexing of a sequence (a negative index counts from the end), and a
  dictionary as an association list with distinct keys in insertion order:
  \<^verbatim>\<open>d[k]\<close> and \<^verbatim>\<open>d[k] = v\<close>.  (\<open>dict_get_map\<close> is \<^verbatim>\<open>d[k]\<close> for a dictionary kept as a
  map.)\<close>

definition py_nth :: "'a list \<Rightarrow> int \<Rightarrow> py_error + 'a" where
  "py_nth xs i =
     (let n = int (length xs); j = (if i < 0 then n + i else i)
      in if 0 \<le> j \<and> j < n then Inr (xs ! nat j)
         else Inl (Raise IndexError ''index out of range''))"

definition dict_get :: "('k \<times> 'v) list \<Rightarrow> 'k \<Rightarrow> py_error + 'v" where
  "dict_get d k = (case map_of d k of None \<Rightarrow> Inl (Raise KeyError []) | Some v \<Rightarrow> Inr v)"

definition dict_get_map :: "('k \<Rightarrow> 'v option) \<Rightarrow> 'k \<Rightarrow> py_error + 'v" where
  "dict_get_map d k = (case d k of None \<Rightarrow> Inl (Raise KeyError []) | Some v \<Rightarrow> Inr v)"

fun dict_set :: "'k \<Rightarrow> 'v \<Rightarrow> ('k \<times> 'v) list \<Rightarrow> ('k \<times> 'v) list" where
  "dict_set k v [] = [(k, v)]"
| "dict_set k v (kv # rest) =
     (if fst kv = k then (k, v) # rest else kv # dict_set k v rest)"

subsection \<open>Reference cells\<close>

text \<open>
  The reference-cell geometry (\<^verbatim>\<open>FIAT.reference_element\<close>) is not part of this module; a
  cell is the bundle of what the module asks of it.  \<open>flat_cell\<close> is the result of
  \<^verbatim>\<open>flatten_reference_cube\<close>: its spatial dimension, its vertices, and its topology as a
  dictionary from dimension to the entity ids of that dimension.  A reference cell
  carries its flattened form, \<^verbatim>\<open>get_dimension()\<close>, \<^verbatim>\<open>get_entity_transform\<close> and the table
  \<^verbatim>\<open>compute_unflattening_map\<close> returns.
\<close>

record flat_cell =
  get_spatial_dimension :: int
  get_vertices :: "rat list list"
  get_topology :: "(int \<times> int list) list"

record ('d, 'p) reference_cell =
  flatten_reference_cube :: flat_cell
  get_dimension :: 'd
  get_entity_transform :: "'d \<Rightarrow> int \<Rightarrow> 'p \<Rightarrow> rat list"
  unflattening_map :: "int \<times> int \<Rightarrow> 'd \<times> int"

text \<open>Modelled from the spec: the entity counts of the flattened quadrilateral (4
  vertices, 4 edges, 1 face) and hexahedron (8 vertices, 12 edges, 6 faces, 1 interior),
  whose class is in \<^verbatim>\<open>FIAT.reference_element\<close>.\<close>

definition quadrilateral_topology :: "(int \<times> int list) list" where
  "quadrilateral_topology = [(0, [0, 1, 2, 3]), (1, [0, 1, 2, 3]), (2, [0])]"

definition hexahedron_topology :: "(int \<times> int list) list" where
  "hexahedron_topology =
     [(0, [0, 1, 2, 3, 4, 5, 6, 7]), (1, [0, 1, 2, 3, 4, 5, 6, 7, 8, 9, 10, 11]),
      (2, [0, 1, 2, 3, 4, 5]), (3, [0])]"

text \<open>The unit square and the unit cube, given flattened, with the identity as entity
  transform and as unflattening table.\<close>

definition unit_square :: "(int, rat list) reference_cell" where
  "unit_square =
     \<lparr> flatten_reference_cube =
         \<lparr> get_spatial_dimension = 2,
           get_vertices = [[0, 0], [0, 1], [1, 0], [1, 1]],
           get_topology = quadrilateral_topology \<rparr>,
       get_dimension = 2,
       get_entity_transform = (\<lambda>d e p. p),
       unflattening_map = (\<lambda>k. k) \<rparr>"

definition unit_cube :: "(int, rat list) reference_cell" where
  "unit_cube =
     \<lparr> flatten_reference_cube =
         \<lparr> get_spatial_dimension = 3,
           get_vertices = [[0, 0, 0], [0, 0, 1], [0, 1, 0], [0, 1, 1],
                           [1, 0, 0], [1, 0, 1], [1, 1, 0], [1, 1, 1]],
           get_topology = hexahedron_topology \<rparr>,
       get_dimension = 3,
       get_entity_transform = (\<lambda>d e p. p),
       unflattening_map = (\<lambda>k. k) \<rparr>"

subsection \<open>The base class: degree-of-freedom allocation\<close>

text \<open>
  \<open>entity_ids\<close> is the nested dictionary of \<^verbatim>\<open>TrimmedSerendipity.__init__\<close>: dimension,
  then entity, then the list of its degrees of freedom.  \<open>assign_ranges\<close> is the loop
  \<^verbatim>\<open>for j in sorted(...): entity_ids[d][j] = list(range(cur, cur + n)); cur = cur + n\<close>,
  returning the dictionary of dimension \<open>d\<close> and the counter; \<open>count\<close> is the expression for
  \<open>n\<close>, evaluated in every round.  \<open>sdim\<close> is the source's \<^verbatim>\<open>dim\<close>, the flattened cell's
  spatial dimension.  In two dimensions the last statement,
  \<^verbatim>\<open>cur += 2*triangular_number(degree - 2) + degree\<close>, changes nothing that is read
  afterwards, but its call can raise.
\<close>

fun assign_ranges ::
  "py_error + int \<Rightarrow> int list \<Rightarrow> (int \<times> int list) list \<Rightarrow> int
     \<Rightarrow> py_error + (int \<times> int list) list \<times> int" where
  "assign_ranges count [] ids cur = Inr (ids, cur)"
| "assign_ranges count (j # js) ids cur =
     bind_err count (\<lambda>n.
       assign_ranges count js (dict_set j (py_range cur (cur + n)) ids) (cur + n))"

definition allocate_entity_ids ::
  "(int \<times> int list) list \<Rightarrow> int \<Rightarrow> int \<Rightarrow> py_error + (int \<times> (int \<times> int list) list) list" where
  "allocate_entity_ids flat_topology sdim degree =
     (let entity_ids = map (\<lambda>(top_dim, entities). (top_dim, map (\<lambda>entity. (entity, [])) entities))
                        flat_topology;
          cur = 0
      in
      if sdim = 2 then
        bind_err (dict_get flat_topology 1) (\<lambda>edges.
        bind_err (dict_get entity_ids 1) (\<lambda>ids1.
        bind_err (assign_ranges (Inr degree) (sort edges) ids1 cur) (\<lambda>(ids1, cur).
          (let entity_ids = dict_set 1 ids1 entity_ids in
           bind_err
             (if degree \<ge> 2 then
                bind_err (triangular_number (degree - 2)) (\<lambda>t.
                bind_err (dict_get entity_ids 2) (\<lambda>ids2.
                  Inr (dict_set 2 (dict_set 0 (py_range cur (cur + 2 * t + degree)) ids2)
                         entity_ids)))
              else Inr entity_ids) (\<lambda>entity_ids.
           bind_err (triangular_number (degree - 2)) (\<lambda>t.
             Inr entity_ids))))))
      else
        (let entity_ids = dict_set 3 [] entity_ids in
         bind_err (dict_get flat_topology 1) (\<lambda>edges.
         bind_err (dict_get entity_ids 1) (\<lambda>ids1.
         bind_err (assign_ranges (Inr degree) (sort edges) ids1 cur) (\<lambda>(ids1, cur).
           (let entity_ids = dict_set 1 ids1 entity_ids in
            bind_err
              (if degree \<ge> 2 then
                 bind_err (dict_get flat_topology 2) (\<lambda>faces.
                 bind_err (dict_get entity_ids 2) (\<lambda>ids2.
                 bind_err
                   (if degree < 4 then
                      assign_ranges
                        (bind_err (triangular_number (degree - 2)) (\<lambda>t. Inr (2 * t + degree)))
                        (sort faces) ids2 cur
                    else assign_ranges (Inr (3 * degree - 4)) (sort faces) ids2 cur)
                   (\<lambda>(ids2, cur). Inr (dict_set 2 ids2 entity_ids, cur))))
               else Inr (entity_ids, cur))
              (\<lambda>(entity_ids, cur).
            bind_err
              (if degree \<ge> 4 then
                 (if degree = 4 then Inr (py_range cur (cur + 6))
                  else if degree = 5 then Inr (py_range cur (cur + 11))
                  else
                    bind_err
                      (fold_err
                         (\<lambda>i interior_ids.
                            bind_err (choose_ijk_total i) (\<lambda>c. Inr (interior_ids + 3 * c)))
                         (py_range 0 (degree - 4)) 0) (\<lambda>interior_ids.
                    Inr (py_range cur (cur + 6 + (degree - 4) * 3 + interior_ids))))
               else Inr (py_range cur cur))
              (\<lambda>interior. Inr (dict_set 3 [(0, interior)] entity_ids)))))))))"


subsection \<open>Elements\<close>

text \<open>
  The state of an element instance: \<open>basis\<close> is the dictionary \<^verbatim>\<open>self.basis\<close> from
  derivative multi-index to the array of basis entries, the only field that changes
  after construction.  \<open>entity_ids\<close> is keyed by the unflattened (dimension, entity)
  pair.  (\<^verbatim>\<open>entity_closure_ids\<close> is computed by \<^verbatim>\<open>FIAT.dual_set.make_entity_closure_ids\<close>,
  which is not part of this module, and is left out.)
\<close>

record ('d, 'p) element =
  ref_el :: "('d, 'p) reference_cell"
  basis :: "int \<times> int \<Rightarrow> expr list list option"
  entity_ids :: "(('d \<times> int) \<times> int list) list"
  el_degree :: int
  formdegree :: int
  mapping :: string
  flat_el :: flat_cell

definition unflatten_entity_ids ::
  "('d, 'p) reference_cell \<Rightarrow> (int \<times> int list) list \<Rightarrow> (int \<times> (int \<times> int list) list) list
     \<Rightarrow> py_error + (('d \<times> int) \<times> int list) list" where
  "unflatten_entity_ids ref flat_topology ids =
     fold_err
       (\<lambda>(d, entity) unflattened.
          bind_err (dict_get ids d) (\<lambda>ids_d.
          bind_err (dict_get ids_d entity) (\<lambda>dofs.
            Inr (dict_set (unflattening_map ref (d, entity)) dofs unflattened))))
       (concat (map (\<lambda>(d, entities). map (\<lambda>entity. (d, entity)) entities)
                  (sort_key fst flat_topology)))
       []"

definition TrimmedSerendipity_init ::
  "('d, 'p) reference_cell \<Rightarrow> (int \<times> int \<Rightarrow> expr list list option) \<Rightarrow> int \<Rightarrow> string
     \<Rightarrow> py_error + ('d, 'p) element" where
  "TrimmedSerendipity_init ref self_basis degree mapping_tag =
     (if degree < 1 then
        Inl (Raise Exception ''Trimmed serendipity elements only valid for k >= 1'')
      else
        (let flat = flatten_reference_cube ref;
             sdim = get_spatial_dimension flat
         in
         if sdim \<noteq> 2 \<and> sdim \<noteq> 3 then
           Inl (Raise Exception
                  ''Trimmed serendipity elements only valid for dimensions 2 and 3'')
         else
           bind_err (allocate_entity_ids (get_topology flat) sdim degree) (\<lambda>ids.
           bind_err (unflatten_entity_ids ref (get_topology flat) ids) (\<lambda>unflattened_entity_ids.
             Inr \<lparr> ref_el = ref, basis = self_basis, entity_ids = unflattened_entity_ids,
                   el_degree = degree, formdegree = 1, mapping = mapping_tag,
                   flat_el = flat \<rparr>))))"

text \<open>
  The two constructors compute the blending pairs and midpoint substitutes from the first
  and last vertex, then the term families, with the same statements (lines 463 to 493 and
  515 to 545); \<open>term_families\<close> is that common part.  \<open>dz\<close> and \<open>z_mid\<close> are \<^verbatim>\<open>None\<close> when
  the vertices have no third coordinate, and subscripting \<^verbatim>\<open>None\<close> is a \<^verbatim>\<open>TypeError\<close>.
  \<open>IL\<close> is assigned only when the dimension is 3: \<open>None\<close> stands for the unassigned local
  variable.  With \<open>lo\<close> and \<open>hi\<close> the coordinate of the first and of the last vertex along
  an axis, \<open>blend lo hi v\<close> is the pair
  \<^verbatim>\<open>((hi - v)/(hi - lo), (v - lo)/(hi - lo))\<close> and \<open>mid lo hi v\<close> is \<^verbatim>\<open>2*v - (hi + lo)\<close>.
\<close>

definition coord :: "rat list list \<Rightarrow> int \<Rightarrow> int \<Rightarrow> py_error + rat" where
  "coord verts i k = bind_err (py_nth verts i) (\<lambda>v. py_nth v k)"

definition blend :: "rat \<Rightarrow> rat \<Rightarrow> var \<Rightarrow> expr \<times> expr" where
  "blend lo hi v = (Div (Num hi - Sym v) (Num (hi - lo)), Div (Sym v - Num lo) (Num (hi - lo)))"

definition mid :: "rat \<Rightarrow> rat \<Rightarrow> var \<Rightarrow> expr" where
  "mid lo hi v = Num 2 * Sym v - Num (hi + lo)"

definition blending_pair :: "rat list list \<Rightarrow> var \<Rightarrow> int \<Rightarrow> py_error + expr \<times> expr" where
  "blending_pair verts v k =
     bind_err (coord verts (- 1) k) (\<lambda>hi.
     bind_err (coord verts 0 k) (\<lambda>lo.
       Inr (blend lo hi v)))"

definition midpoint :: "rat list list \<Rightarrow> var \<Rightarrow> int \<Rightarrow> py_error + expr" where
  "midpoint verts v k =
     bind_err (coord verts (- 1) k) (\<lambda>hi.
     bind_err (coord verts 0 k) (\<lambda>lo.
       Inr (mid lo hi v)))"

text \<open>The vertex list is not empty and its first and last vertex have at least \<open>n\<close>
  coordinates: what the look-ups \<^verbatim>\<open>verts[0][k]\<close> and \<^verbatim>\<open>verts[-1][k]\<close> need for \<open>k < n\<close>.\<close>

definition has_coords :: "rat list list \<Rightarrow> nat \<Rightarrow> bool" where
  "has_coords verts n = (verts \<noteq> [] \<and> n \<le> length (hd verts) \<and> n \<le> length (last verts))"

definition with_dz ::
  "((expr \<times> expr) \<times> expr) option \<Rightarrow> (expr \<times> expr \<Rightarrow> expr \<Rightarrow> 'a) \<Rightarrow> py_error + 'a" where
  "with_dz dz_z_mid f =
     (case dz_z_mid of
        None \<Rightarrow> Inl (Raise TypeError ''NoneType object is not subscriptable'')
      | Some (dz, z_mid) \<Rightarrow> Inr (f dz z_mid))"

definition term_families ::
  "int \<Rightarrow> int \<Rightarrow> rat list list
     \<Rightarrow> py_error + (expr list list \<times> expr list list \<times> expr list list option)" where
  "term_families sdim degree verts =
     bind_err (blending_pair verts X 0) (\<lambda>dx.
     bind_err (blending_pair verts Y 1) (\<lambda>dy.
     bind_err (midpoint verts X 0) (\<lambda>x_mid.
     bind_err (midpoint verts Y 1) (\<lambda>y_mid.
       (let dz_z_mid =
              (case bind_err (blending_pair verts Z 2) (\<lambda>dz.
                    bind_err (midpoint verts Z 2) (\<lambda>z_mid. Inr (dz, z_mid))) of
                 Inl e \<Rightarrow> None
               | Inr p \<Rightarrow> Some p)
        in
        bind_err
          (if sdim = 2 then Inr (e_lambda_1_2d_part_one degree dx dy x_mid y_mid)
           else with_dz dz_z_mid (\<lambda>dz z_mid.
                  e_lambda_1_3d_trimmed degree dx dy dz x_mid y_mid z_mid)) (\<lambda>EL.
        bind_err
          (if degree \<ge> 2 then
             (if sdim = 2 then Inr (trimmed_f_lambda_2d degree dx dy x_mid y_mid)
              else with_dz dz_z_mid (\<lambda>dz z_mid.
                     trimmed_f_lambda_3d degree dx dy dz x_mid y_mid z_mid))
           else Inr []) (\<lambda>FL.
        bind_err
          (if sdim = 3 then
             (if degree \<ge> 4 then
                with_dz dz_z_mid (\<lambda>dz z_mid.
                  Some (I_lambda_1_3d degree dx dy dz x_mid y_mid z_mid @
                        I_lambda_1_tilde_3d degree dx dy dz x_mid y_mid z_mid))
              else Inr (Some []))
           else Inr None) (\<lambda>IL.
        Inr (EL, FL, IL)))))))))"

definition local_IL :: "expr list list option \<Rightarrow> py_error + expr list list" where
  "local_IL IL =
     (case IL of
        None \<Rightarrow> Inl (Raise UnboundLocalError ''local variable IL referenced before assignment'')
      | Some terms \<Rightarrow> Inr terms)"

definition TrimmedSerendipityEdge ::
  "('d, 'p) reference_cell \<Rightarrow> int \<Rightarrow> py_error + ('d, 'p) element" where
  "TrimmedSerendipityEdge ref degree =
     (if degree < 1 then
        Inl (Raise Exception ''Trimmed Serendipity_k edge elements only valid for k >= 1'')
      else
        (let flat = flatten_reference_cube ref;
             sdim = get_spatial_dimension flat
         in
         if sdim \<noteq> 2 \<and> sdim \<noteq> 3 then
           Inl (Raise Exception
                  ''Trimmed Serendipity_k edge elements only valid for dimensions 2 and 3'')
         else
           bind_err (term_families sdim degree (get_vertices flat)) (\<lambda>(EL, FL, IL).
           bind_err
             (let Sminus_list = EL @ FL in
              if sdim = 3 then bind_err (local_IL IL) (\<lambda>IL. Inr (Sminus_list @ IL))
              else Inr Sminus_list) (\<lambda>Sminus_list.
           TrimmedSerendipity_init ref (Map.empty((0, 0) \<mapsto> Sminus_list)) degree
             ''covariant piola''))))"

definition TrimmedSerendipityFace ::
  "('d, 'p) reference_cell \<Rightarrow> int \<Rightarrow> py_error + ('d, 'p) element" where
  "TrimmedSerendipityFace ref degree =
     (if degree < 1 then
        Inl (Raise Exception ''Trimmed serendipity face elements only valid for k >= 1'')
      else
        (let flat = flatten_reference_cube ref;
             sdim = get_spatial_dimension flat
         in
         if sdim \<noteq> 2 \<and> sdim \<noteq> 3 then
           Inl (Raise Exception
                  ''Trimmed serendipity face elements only valid for dimensions 2 and 3'')
         else
           bind_err (term_families sdim degree (get_vertices flat)) (\<lambda>(EL, FL, IL).
           bind_err (bind_err (local_IL IL) (\<lambda>IL. Inr (EL @ FL @ IL))) (\<lambda>bdmcf_list.
           (let bdmcf_list = map (\<lambda>a. [- (a ! 1), a ! 0]) bdmcf_list in
            TrimmedSerendipity_init ref (Map.empty((0, 0) \<mapsto> bdmcf_list)) degree
              ''contravariant piola'')))))"

subsection \<open>Queries\<close>

text \<open>\<^verbatim>\<open>len\<close> of a sympy array is the number of its scalar entries.\<close>

definition array_len :: "expr list list \<Rightarrow> int" where
  "array_len polynomials = int (length (concat polynomials))"

definition space_dimension :: "('d, 'p) element \<Rightarrow> py_error + int" where
  "space_dimension self =
     bind_err (dict_get_map (basis self) (0, 0)) (\<lambda>b. py_int_truediv (array_len b) 2)"

definition value_shape :: "('d, 'p) element \<Rightarrow> int list" where
  "value_shape self = [2]"

definition entity_dofs :: "('d, 'p) element \<Rightarrow> (('d \<times> int) \<times> int list) list" where
  "entity_dofs self = entity_ids self"

text \<open>All degrees of freedom of the entity-DOF map, entity after entity.\<close>

definition all_dofs :: "('k \<times> int list) list \<Rightarrow> int list" where
  "all_dofs ids = concat (map snd ids)"

definition get_nodal_basis :: "('d, 'p) element \<Rightarrow> py_error + unit" where
  "get_nodal_basis self =
     Inl (Raise NotImplementedError ''get_nodal_basis not implemented for trimmed serendipity'')"

definition get_dual_set :: "('d, 'p) element \<Rightarrow> py_error + unit" where
  "get_dual_set self =
     Inl (Raise NotImplementedError ''get_dual_set is not implemented for trimmed serendipity'')"

definition get_coeffs :: "('d, 'p) element \<Rightarrow> py_error + unit" where
  "get_coeffs self =
     Inl (Raise NotImplementedError ''get_coeffs not implemented for trimmed serendipity'')"

definition dmats :: "('d, 'p) element \<Rightarrow> py_error + unit" where
  "dmats self = Inl (Raise NotImplementedError [])"

definition get_num_members :: "('d, 'p) element \<Rightarrow> 'a \<Rightarrow> py_error + unit" where
  "get_num_members self arg = Inl (Raise NotImplementedError [])"

subsection \<open>Tabulation\<close>

text \<open>
  The symbolic engine is not part of this module, so \<^verbatim>\<open>tabulate\<close> takes its two
  operations as parameters: \<open>diff_expr f [(v, n), ...]\<close> is \<^verbatim>\<open>diff(f, (v, n), ...)\<close> on one
  expression (sympy differentiates an array entry by entry, which \<open>diff_array\<close> writes
  out), and \<open>evalf f subs\<close> is the assignment \<^verbatim>\<open>T[j, c, i] = f.evalf(subs=subs)\<close>: the
  evaluation under a substitution together with the store into the numeric array, either
  of which may raise.

  Modelled from the spec: \<^verbatim>\<open>mis(2, o)\<close> of \<^verbatim>\<open>FIAT.polynomial_set\<close>, the derivative
  multi-indices of total order \<open>o\<close> over the two flattened variables.
\<close>

definition mis2 :: "int \<Rightarrow> (int \<times> int) list" where
  "mis2 n = map (\<lambda>i. (n - i, i)) (py_range 0 (n + 1))"

definition diff_array ::
  "(expr \<Rightarrow> (var \<times> int) list \<Rightarrow> expr) \<Rightarrow> expr list list \<Rightarrow> int \<times> int \<Rightarrow> expr list list" where
  "diff_array diff_expr polynomials alpha =
     map (map (\<lambda>f. diff_expr f (zip [X, Y, Z] [fst alpha, snd alpha]))) polynomials"

text \<open>\<^verbatim>\<open>polynomials[:, c]\<close>, and the substitution
  \<^verbatim>\<open>{v: points[i][k] for k, v in enumerate(variables[:2])}\<close>.\<close>

definition column :: "expr list list \<Rightarrow> nat \<Rightarrow> py_error + expr list" where
  "column polynomials c =
     (if list_all (\<lambda>row. c < length row) polynomials
      then Inr (map (\<lambda>row. row ! c) polynomials)
      else Inl (Raise IndexError ''index out of range''))"

definition make_subs :: "rat list \<Rightarrow> py_error + (var \<Rightarrow> rat option)" where
  "make_subs p =
     bind_err (py_nth p 0) (\<lambda>p0.
     bind_err (py_nth p 1) (\<lambda>p1.
       Inr (Map.empty(X \<mapsto> p0, Y \<mapsto> p1))))"

text \<open>The body of the loop over the points: both columns of the array at one point.
  \<open>tabulate_array\<close> is the array \<open>T\<close> of shape (basis entries, 2, points), every slot of
  which the loops overwrite.\<close>

definition tabulate_point ::
  "(expr \<Rightarrow> (var \<Rightarrow> rat option) \<Rightarrow> py_error + 'v) \<Rightarrow> expr list list \<Rightarrow> rat list
     \<Rightarrow> py_error + 'v list \<times> 'v list" where
  "tabulate_point evalf polynomials p =
     bind_err (make_subs p) (\<lambda>subs.
     bind_err (column polynomials 0) (\<lambda>fs0.
     bind_err (mapM_err (\<lambda>f. evalf f subs) fs0) (\<lambda>c0.
     bind_err (column polynomials 1) (\<lambda>fs1.
     bind_err (mapM_err (\<lambda>f. evalf f subs) fs1) (\<lambda>c1.
       Inr (c0, c1))))))"

definition tabulate_array ::
  "(expr \<Rightarrow> (var \<Rightarrow> rat option) \<Rightarrow> py_error + 'v) \<Rightarrow> expr list list \<Rightarrow> rat list list
     \<Rightarrow> py_error + 'v list list list" where
  "tabulate_array evalf polynomials points =
     bind_err (column polynomials 0) (\<lambda>fs0.
     bind_err (mapM_err (tabulate_point evalf polynomials) points) (\<lambda>cols.
       Inr (map (\<lambda>j. [map (\<lambda>col. fst col ! j) cols, map (\<lambda>col. snd col ! j) cols])
              [0..<length fs0])))"

text \<open>\<^verbatim>\<open>try: polynomials = self.basis[alpha]\<close>, with the derivative computed from the
  order-0 basis and stored on a \<^verbatim>\<open>KeyError\<close>.\<close>

definition cached_derivative ::
  "(expr \<Rightarrow> (var \<times> int) list \<Rightarrow> expr) \<Rightarrow> (int \<times> int \<Rightarrow> expr list list option) \<Rightarrow> int \<times> int
     \<Rightarrow> py_error + expr list list \<times> (int \<times> int \<Rightarrow> expr list list option)" where
  "cached_derivative diff_expr self_basis alpha =
     (case self_basis alpha of
        Some polynomials \<Rightarrow> Inr (polynomials, self_basis)
      | None \<Rightarrow>
          bind_err (dict_get_map self_basis (0, 0)) (\<lambda>b.
            (let polynomials = diff_array diff_expr b alpha
             in Inr (polynomials, self_basis(alpha \<mapsto> polynomials)))))"

fun tabulate_loop ::
  "(expr \<Rightarrow> (var \<times> int) list \<Rightarrow> expr) \<Rightarrow> (expr \<Rightarrow> (var \<Rightarrow> rat option) \<Rightarrow> py_error + 'v)
     \<Rightarrow> rat list list \<Rightarrow> (int \<times> int) list
     \<Rightarrow> (int \<times> int \<Rightarrow> expr list list option) \<Rightarrow> (int \<times> int \<Rightarrow> 'v list list list option)
     \<Rightarrow> (py_error + (int \<times> int \<Rightarrow> 'v list list list option))
         \<times> (int \<times> int \<Rightarrow> expr list list option)" where
  "tabulate_loop diff_expr evalf points [] self_basis phivals = (Inr phivals, self_basis)"
| "tabulate_loop diff_expr evalf points (alpha # alphas) self_basis phivals =
     (case cached_derivative diff_expr self_basis alpha of
        Inl e \<Rightarrow> (Inl e, self_basis)
      | Inr (polynomials, self_basis') \<Rightarrow>
          (case tabulate_array evalf polynomials points of
             Inl e \<Rightarrow> (Inl e, self_basis')
           | Inr T \<Rightarrow>
               tabulate_loop diff_expr evalf points alphas self_basis' (phivals(alpha \<mapsto> T))))"

text \<open>\<^verbatim>\<open>tabulate\<close> returns the dictionary \<^verbatim>\<open>phivals\<close> (or the exception raised) and the
  element with its cache as the call leaves it.\<close>

definition tabulate ::
  "(expr \<Rightarrow> (var \<times> int) list \<Rightarrow> expr) \<Rightarrow> (expr \<Rightarrow> (var \<Rightarrow> rat option) \<Rightarrow> py_error + 'v)
     \<Rightarrow> ('d, 'p) element \<Rightarrow> int \<Rightarrow> 'p list \<Rightarrow> ('d \<times> int) option
     \<Rightarrow> (py_error + (int \<times> int \<Rightarrow> 'v list list list option)) \<times> ('d, 'p) element" where
  "tabulate diff_expr evalf self order points entity =
     (let entity = (case entity of None \<Rightarrow> (get_dimension (ref_el self), 0) | Some e \<Rightarrow> e);
          transform = get_entity_transform (ref_el self) (fst entity) (snd entity);
          points = map transform points;
          alphas = concat (map mis2 (py_range 0 (order + 1)));
          (result, self_basis) =
             tabulate_loop diff_expr evalf points alphas (basis self) Map.empty
      in (result, self\<lparr>basis := self_basis\<rparr>))"

subsection \<open>The assembled two-dimensional Edge basis and the specified face count\<close>

text \<open>
  \<open>Sminus_list_2d\<close> is what \<^verbatim>\<open>Sminus_list\<close> is in \<^verbatim>\<open>TrimmedSerendipityEdge.__init__\<close> when
  the dimension is 2 (lines 465 to 468, 476 to 486 and 495): the entries of
  \<^verbatim>\<open>e_lambda_1_2d_part_one\<close> followed, from degree 2 on, by those of
  \<^verbatim>\<open>trimmed_f_lambda_2d\<close>.  \<open>face_dofs_2d\<close> is the number of face degrees of freedom as
  the specification writes it, \<open>2 T(d - 2) + d\<close> with \<open>T(n) = n (n + 1) / 2\<close> from degree 2
  on and 0 below.
\<close>

definition Sminus_list_2d :: "rat list list \<Rightarrow> int \<Rightarrow> expr list list" where
  "Sminus_list_2d verts degree =
     (let dx = blend (hd verts ! 0) (last verts ! 0) X;
          dy = blend (hd verts ! 1) (last verts ! 1) Y;
          x_mid = mid (hd verts ! 0) (last verts ! 0) X;
          y_mid = mid (hd verts ! 1) (last verts ! 1) Y
      in e_lambda_1_2d_part_one degree dx dy x_mid y_mid @
         (if degree \<ge> 2 then trimmed_f_lambda_2d degree dx dy x_mid y_mid else []))"

definition face_dofs_2d :: "int \<Rightarrow> int" where
  "face_dofs_2d degree =
     (if degree \<ge> 2 then 2 * ((degree - 2) * (degree - 1) div 2) + degree else 0)"




text \<open>
  An instance of the symbolic engine in exact rational arithmetic, to run \<^verbatim>\<open>tabulate\<close>
  on concrete inputs.  \<open>exact_diff\<close> differentiates by the usual rules, a Legendre
  polynomial by \<open>P'\<^bsub>n+2\<^esub> = (2 n + 3) P\<^bsub>n+1\<^esub> + P'\<^bsub>n\<^esub>\<close>.  \<open>exact_evalf\<close> is the
  value of the expression under the substitution; an expression that keeps a symbol
  without a value is not a number, and storing it into the numeric array is a
  \<^verbatim>\<open>TypeError\<close>.
\<close>

fun legendre_deriv :: "nat \<Rightarrow> expr \<Rightarrow> expr" where
  "legendre_deriv 0 a = Num 0"
| "legendre_deriv (Suc 0) a = Num 1"
| "legendre_deriv (Suc (Suc n)) a =
     Num (of_nat (2 * n + 3)) * Leg (int n + 1) a + legendre_deriv n a"

fun diff1 :: "var \<Rightarrow> expr \<Rightarrow> expr" where
  "diff1 v (Num c) = Num 0"
| "diff1 v (Sym w) = Num (if v = w then 1 else 0)"
| "diff1 v (Neg a) = - diff1 v a"
| "diff1 v (Add a b) = diff1 v a + diff1 v b"
| "diff1 v (Sub a b) = diff1 v a - diff1 v b"
| "diff1 v (Mul a b) = diff1 v a * b + a * diff1 v b"
| "diff1 v (Div a b) = Div (diff1 v a * b - a * diff1 v b) (b * b)"
| "diff1 v (Leg n a) = legendre_deriv (nat n) a * diff1 v a"

definition exact_diff :: "expr \<Rightarrow> (var \<times> int) list \<Rightarrow> expr" where
  "exact_diff f args = fold (\<lambda>(v, n) g. (diff1 v ^^ nat n) g) args f"

definition exact_evalf :: "expr \<Rightarrow> (var \<Rightarrow> rat option) \<Rightarrow> py_error + rat" where
  "exact_evalf f subs =
     (case eval_expr subs f of
        None \<Rightarrow> Inl (Raise TypeError ''Cannot convert expression to float'')
      | Some r \<Rightarrow> Inr r)"

text \<open>The derivative multi-indices that \<^verbatim>\<open>tabulate\<close> visits for a given order, in the
  order of its two loops, and an array cut down to the first two components of every
  entry.\<close>

definition multi_indices :: "int \<Rightarrow> (int \<times> int) list" where
  "multi_indices order = concat (map mis2 (py_range 0 (order + 1)))"

text \<open>The points as \<^verbatim>\<open>tabulate\<close> evaluates at them: pushed through the transform of the
  entity (the whole cell when none is given).\<close>

definition entity_points :: "('d, 'p) element \<Rightarrow> 'p list \<Rightarrow> ('d \<times> int) option \<Rightarrow> rat list list" where
  "entity_points self points entity =
     (let entity = (case entity of None \<Rightarrow> (get_dimension (ref_el self), 0) | Some e \<Rightarrow> e)
      in map (get_entity_transform (ref_el self) (fst entity) (snd entity)) points)"

definition first_two :: "expr list list \<Rightarrow> expr list list" where
  "first_two polynomials = map (take 2) polynomials"

section \<open>Properties\<close>

subsection \<open>Division is exact up to \<open>2^53\<close>\<close>

lemma round_half_even_of_int [simp]: "round_half_even (of_int n) = n"
  by (simp add: round_half_even_def)

lemma py_int_truediv_exact:
  assumes "0 \<le> k" "k \<le> 2 ^ 53" "0 < b"
  shows "py_int_truediv (k * b) b = Inr k"
proof (cases "k = 0")
  case True
  with assms(3) show ?thesis by (simp add: py_int_truediv_def)
next
  case False
  with assms(1) have k1: "1 \<le> k" by simp
  have q: "\<bar>of_int (k * b) / of_int b :: rat\<bar> = of_int k"
    using assms(1,3) by simp
  have s: "((k * b < 0) \<noteq> (b < 0)) = False"
    using assms(1,3) by (simp add: mult_less_0_iff)
  have d: "\<bar>k * b\<bar> div \<bar>b\<bar> = k"
    using assms(1,3) by (simp add: abs_mult)
  have q1: "\<not> (of_int k :: rat) < 1"
    using k1 by simp
  have big: "k < 2 ^ 1024"
  proof -
    have "(2::int) ^ 53 < 2 ^ 1024" by (rule power_strict_increasing) simp_all
    with assms(2) show ?thesis by simp
  qed
  have le54: "bitlen k \<le> 54"
  proof -
    have "(2::int) ^ 53 < 2 ^ 54" by (rule power_strict_increasing) simp_all
    with assms(2) have "k < 2 ^ nat 54" by simp
    then show ?thesis by (simp add: bitlen_le_iff_power)
  qed
  define e where "e = bitlen k - 53"
  have res: "(if 0 \<le> e then
              (let v = round_half_even (of_int k / 2 ^ nat e) * 2 ^ nat e in
               if 2 ^ 1024 \<le> v then
                 Inl (Raise OverflowError ''integer division result too large for a float'')
               else Inr (1 * v))
            else Inr (1 * (round_half_even (of_int k * 2 ^ nat (- e)) div 2 ^ nat (- e))))
        = Inr k"
  proof (cases "0 \<le> e")
    case False
    have "(of_int k :: rat) * 2 ^ nat (- e) = of_int (k * 2 ^ nat (- e))" by simp
    then have "round_half_even (of_int k * 2 ^ nat (- e)) = k * 2 ^ nat (- e)"
      by (simp only: round_half_even_of_int)
    with False show ?thesis by simp
  next
    case True
    then have "e = 0 \<or> e = 1" using le54 by (auto simp: e_def)
    then show ?thesis
    proof
      assume "e = 0"
      with big show ?thesis by (simp add: Let_def)
    next
      assume e1: "e = 1"
      then have "bitlen k = 54" by (simp add: e_def)
      with bitlen_bounds [of k] k1 have "2 ^ 53 \<le> k" by simp
      with assms(2) have k: "k = 2 ^ 53" by simp
      have "(of_int k :: rat) / 2 ^ nat e = of_int (2 ^ 52)"
        unfolding k e1 by simp
      then have "round_half_even (of_int k / 2 ^ nat e) = 2 ^ 52"
        by (simp only: round_half_even_of_int)
      then show ?thesis
        using e1 big by (simp add: Let_def k)
    qed
  qed
  have b0: "(b = 0) = False"
    using assms(3) by simp
  have q1': "((of_int k :: rat) < 1) = False"
    using q1 by simp
  show ?thesis
    unfolding py_int_truediv_def Let_def q s d b0 q1' if_False
    by (rule res [unfolded e_def Let_def])
qed

lemma triangular_number_exact:
  assumes "(n + 1) * n \<le> 2 ^ 54"
  shows "triangular_number n = Inr ((n + 1) * n div 2)"
proof -
  have ev: "even ((n + 1) * n)" by simp
  then have eq: "(n + 1) * n = ((n + 1) * n div 2) * 2" by simp
  have nonneg: "0 \<le> (n + 1) * n"
    by (cases "0 \<le> n") (auto simp: zero_le_mult_iff)
  then have k0: "0 \<le> (n + 1) * n div 2" by simp
  have k1: "(n + 1) * n div 2 \<le> 2 ^ 53" using assms by simp
  show ?thesis
    unfolding triangular_number_def
    using py_int_truediv_exact [OF k0 k1, of 2] eq by simp
qed

subsection \<open>Vertex look-ups and the term families\<close>

lemma coord_first:
  "has_coords verts n \<Longrightarrow> k < n \<Longrightarrow> coord verts 0 (int k) = Inr (hd verts ! k)"
  by (cases verts) (auto simp: has_coords_def coord_def py_nth_def Let_def)

lemma coord_last:
  "has_coords verts n \<Longrightarrow> k < n \<Longrightarrow> coord verts (- 1) (int k) = Inr (last verts ! k)"
  by (cases verts rule: rev_cases)
     (auto simp: has_coords_def coord_def py_nth_def Let_def nth_append)

lemma blending_pair_ok:
  "has_coords verts n \<Longrightarrow> k < n \<Longrightarrow>
   blending_pair verts v (int k) = Inr (blend (hd verts ! k) (last verts ! k) v)"
  by (simp add: blending_pair_def coord_first coord_last)

lemma midpoint_ok:
  "has_coords verts n \<Longrightarrow> k < n \<Longrightarrow>
   midpoint verts v (int k) = Inr (mid (hd verts ! k) (last verts ! k) v)"
  by (simp add: midpoint_def coord_first coord_last)

lemma term_families_2d:
  assumes "has_coords verts 2"
  shows "term_families 2 degree verts =
     Inr (e_lambda_1_2d_part_one degree (blend (hd verts ! 0) (last verts ! 0) X)
            (blend (hd verts ! 1) (last verts ! 1) Y)
            (mid (hd verts ! 0) (last verts ! 0) X) (mid (hd verts ! 1) (last verts ! 1) Y),
          (if degree \<ge> 2 then
             trimmed_f_lambda_2d degree (blend (hd verts ! 0) (last verts ! 0) X)
               (blend (hd verts ! 1) (last verts ! 1) Y)
               (mid (hd verts ! 0) (last verts ! 0) X) (mid (hd verts ! 1) (last verts ! 1) Y)
           else []),
          None)"
proof -
  have a: "blending_pair verts X 0 = Inr (blend (hd verts ! 0) (last verts ! 0) X)"
    using blending_pair_ok [OF assms, of 0 X] by simp
  have b: "blending_pair verts Y 1 = Inr (blend (hd verts ! 1) (last verts ! 1) Y)"
    using blending_pair_ok [OF assms, of 1 Y] by simp
  have c: "midpoint verts X 0 = Inr (mid (hd verts ! 0) (last verts ! 0) X)"
    using midpoint_ok [OF assms, of 0 X] by simp
  have d: "midpoint verts Y 1 = Inr (mid (hd verts ! 1) (last verts ! 1) Y)"
    using midpoint_ok [OF assms, of 1 Y] by simp
  show ?thesis
    by (simp add: term_families_def a b c d Let_def)
qed

subsection \<open>Sizes of the generated families\<close>

lemma length_py_range [simp]: "length (py_range a b) = nat (b - a)"
  by (simp add: py_range_def)


lemma length_concat_rows:
  "list_all (\<lambda>r. length r = k) b \<Longrightarrow> length (concat b) = k * length b"
  by (induction b) auto

lemma length_e_lambda_1_2d_part_one:
  "length (e_lambda_1_2d_part_one deg dx dy x_mid y_mid) = 4 * nat deg"
  by (simp add: e_lambda_1_2d_part_one_def)

lemma rows_e_lambda_1_2d_part_one:
  "list_all (\<lambda>r. length r = 2) (e_lambda_1_2d_part_one deg dx dy x_mid y_mid)"
  by (auto simp: e_lambda_1_2d_part_one_def list_all_iff)

lemma length_f_lambda_1_2d_pieces:
  "2 \<le> i \<Longrightarrow> length (f_lambda_1_2d_pieces i dx dy x_mid y_mid) = 2 * nat (i - 1)"
  by (simp add: f_lambda_1_2d_pieces_def Let_def length_concat sum_list_triv comp_def)

lemma rows_f_lambda_1_2d_pieces:
  "list_all (\<lambda>r. length r = 2) (f_lambda_1_2d_pieces i dx dy x_mid y_mid)"
  by (auto simp: f_lambda_1_2d_pieces_def Let_def list_all_iff)

lemma length_f_lambda_1_2d_trim:
  "2 \<le> deg \<Longrightarrow>
   int (length (f_lambda_1_2d_trim deg dx dy x_mid y_mid)) = (deg - 1) * (deg - 2)"
proof (induction deg rule: int_ge_induct)
  case base
  show ?case
    by (simp add: f_lambda_1_2d_trim_def determine_f_lambda_portions_2d_def py_range_def)
next
  case (step i)
  have split: "py_range 2 (i + 1) = py_range 2 i @ [i]"
    using step.hyps upto_rec2 [of 2 i] by (simp add: py_range_def)
  have "int (length (f_lambda_1_2d_trim (i + 1) dx dy x_mid y_mid)) =
        int (length (f_lambda_1_2d_trim i dx dy x_mid y_mid)) + 2 * (i - 1)"
    using step.hyps
    by (simp add: f_lambda_1_2d_trim_def determine_f_lambda_portions_2d_def split
          length_f_lambda_1_2d_pieces)
  also have "\<dots> = (i - 1) * (i - 2) + 2 * (i - 1)"
    using step.IH by simp
  also have "\<dots> = (i + 1 - 1) * (i + 1 - 2)"
    by (simp add: algebra_simps)
  finally show ?case .
qed

lemma rows_f_lambda_1_2d_trim:
  "list_all (\<lambda>r. length r = 2) (f_lambda_1_2d_trim deg dx dy x_mid y_mid)"
  using rows_f_lambda_1_2d_pieces
  by (auto simp: f_lambda_1_2d_trim_def list_all_iff)

lemma length_f_lambda_1_2d_tilde:
  "2 \<le> deg \<Longrightarrow> int (length (f_lambda_1_2d_tilde deg dx dy x_mid y_mid)) = deg"
  by (simp add: f_lambda_1_2d_tilde_def)

lemma rows_f_lambda_1_2d_tilde:
  "list_all (\<lambda>r. length r = 2) (f_lambda_1_2d_tilde deg dx dy x_mid y_mid)"
  by (auto simp: f_lambda_1_2d_tilde_def list_all_iff)

lemma length_trimmed_f_lambda_2d:
  "2 \<le> deg \<Longrightarrow>
   int (length (trimmed_f_lambda_2d deg dx dy x_mid y_mid)) = (deg - 1) * (deg - 2) + deg"
  using length_f_lambda_1_2d_trim [of deg dx dy x_mid y_mid]
    length_f_lambda_1_2d_tilde [of deg dx dy x_mid y_mid]
  by (simp add: trimmed_f_lambda_2d_def Let_def)

lemma rows_trimmed_f_lambda_2d:
  "list_all (\<lambda>r. length r = 2) (trimmed_f_lambda_2d deg dx dy x_mid y_mid)"
  by (simp add: trimmed_f_lambda_2d_def Let_def rows_f_lambda_1_2d_trim rows_f_lambda_1_2d_tilde)

subsection \<open>The two-dimensional Edge element\<close>

lemma two_half_consecutive: "2 * ((n - 2) * (n - 1) div 2) = (n - 2) * (n - 1)" for n :: int
proof -
  have "even ((n - 2) * (n - 1))" by simp
  then show ?thesis by simp
qed

lemma face_dofs_2d_eq: "2 \<le> degree \<Longrightarrow> face_dofs_2d degree = (degree - 1) * (degree - 2) + degree"
  using two_half_consecutive [of degree] by (simp add: face_dofs_2d_def mult.commute)

lemma allocate_2d:
  assumes "(degree - 1) * (degree - 2) \<le> 2 ^ 54"
  shows "allocate_entity_ids quadrilateral_topology 2 degree =
     Inr [(0, [(0, []), (1, []), (2, []), (3, [])]),
          (1, [(0, py_range 0 degree), (1, py_range degree (2 * degree)),
               (2, py_range (2 * degree) (3 * degree)), (3, py_range (3 * degree) (4 * degree))]),
          (2, [(0, if degree \<ge> 2
                   then py_range (4 * degree) (4 * degree + face_dofs_2d degree)
                   else [])])]"
proof -
  have t: "triangular_number (degree - 2) = Inr ((degree - 2) * (degree - 1) div 2)"
    using triangular_number_exact [of "degree - 2"] assms by (simp add: mult.commute)
  show ?thesis
    by (simp add: allocate_entity_ids_def quadrilateral_topology_def dict_get_def Let_def t
          face_dofs_2d_def)
qed

lemma unflatten_2d:
  assumes "inj (unflattening_map ref)"
  shows "unflatten_entity_ids ref quadrilateral_topology
     [(0, [(0, v0), (1, v1), (2, v2), (3, v3)]),
      (1, [(0, e0), (1, e1), (2, e2), (3, e3)]),
      (2, [(0, f0)])] =
     Inr [(unflattening_map ref (0, 0), v0), (unflattening_map ref (0, 1), v1),
          (unflattening_map ref (0, 2), v2), (unflattening_map ref (0, 3), v3),
          (unflattening_map ref (1, 0), e0), (unflattening_map ref (1, 1), e1),
          (unflattening_map ref (1, 2), e2), (unflattening_map ref (1, 3), e3),
          (unflattening_map ref (2, 0), f0)]"
  by (simp add: unflatten_entity_ids_def quadrilateral_topology_def dict_get_def
        inj_eq [OF assms])

lemma edge_2d_constructed:
  assumes "1 \<le> degree"
    and "(degree - 1) * (degree - 2) \<le> 2 ^ 54"
    and "get_spatial_dimension (flatten_reference_cube ref) = 2"
    and "get_topology (flatten_reference_cube ref) = quadrilateral_topology"
    and "has_coords (get_vertices (flatten_reference_cube ref)) 2"
    and "inj (unflattening_map ref)"
  shows "TrimmedSerendipityEdge ref degree =
     Inr \<lparr> ref_el = ref,
           basis = Map.empty((0, 0) \<mapsto>
                     Sminus_list_2d (get_vertices (flatten_reference_cube ref)) degree),
           entity_ids =
             [(unflattening_map ref (0, 0), []), (unflattening_map ref (0, 1), []),
              (unflattening_map ref (0, 2), []), (unflattening_map ref (0, 3), []),
              (unflattening_map ref (1, 0), py_range 0 degree),
              (unflattening_map ref (1, 1), py_range degree (2 * degree)),
              (unflattening_map ref (1, 2), py_range (2 * degree) (3 * degree)),
              (unflattening_map ref (1, 3), py_range (3 * degree) (4 * degree)),
              (unflattening_map ref (2, 0),
                 if degree \<ge> 2
                 then py_range (4 * degree) (4 * degree + face_dofs_2d degree)
                 else [])],
           el_degree = degree, formdegree = 1, mapping = ''covariant piola'',
           flat_el = flatten_reference_cube ref \<rparr>"
  using assms(1,3,4)
  by (simp add: TrimmedSerendipityEdge_def Let_def term_families_2d [OF assms(5)]
        TrimmedSerendipity_init_def allocate_2d [OF assms(2)] unflatten_2d [OF assms(6)]
        Sminus_list_2d_def)

lemma py_range_append:
  assumes "a \<le> b" "b \<le> c"
  shows "py_range a b @ py_range b c = py_range a c"
proof (cases "b = c")
  case True
  then show ?thesis by (simp add: py_range_def)
next
  case False
  with assms have "b \<le> c - 1" by simp
  from upto_split1 [OF assms(1) this] show ?thesis
    by (simp add: py_range_def)
qed

lemma length_Sminus_list_2d:
  "1 \<le> degree \<Longrightarrow> int (length (Sminus_list_2d verts degree)) = 4 * degree + face_dofs_2d degree"
  by (cases "2 \<le> degree")
     (simp_all add: Sminus_list_2d_def Let_def length_e_lambda_1_2d_part_one
        length_trimmed_f_lambda_2d face_dofs_2d_eq, simp add: face_dofs_2d_def)

lemma rows_Sminus_list_2d:
  "list_all (\<lambda>r. length r = 2) (Sminus_list_2d verts degree)"
  by (simp add: Sminus_list_2d_def Let_def rows_e_lambda_1_2d_part_one rows_trimmed_f_lambda_2d)

lemma py_range_empty [simp]: "b \<le> a \<Longrightarrow> py_range a b = []"
  by (simp add: py_range_def)

lemma degree_bound_2d:
  assumes "1 \<le> degree" "degree \<le> 94906264"
  shows "4 * degree + face_dofs_2d degree \<le> 2 ^ 53"
    and "(degree - 1) * (degree - 2) \<le> 2 ^ 54"
    and "0 \<le> face_dofs_2d degree"
proof -
  have sq: "degree * degree \<le> 94906264 * 94906264"
    using assms by (intro mult_mono) simp_all
  have f: "face_dofs_2d degree \<le> degree * degree - 2 * degree + 2"
  proof (cases "2 \<le> degree")
    case True
    then show ?thesis
      using face_dofs_2d_eq [of degree] by (simp add: algebra_simps)
  next
    case False
    with assms(1) have "degree = 1" by simp
    then show ?thesis by (simp add: face_dofs_2d_def)
  qed
  show "4 * degree + face_dofs_2d degree \<le> 2 ^ 53"
    using sq f assms by simp
  have "(degree - 1) * (degree - 2) = degree * degree - 3 * degree + 2"
    by (simp add: algebra_simps)
  then show "(degree - 1) * (degree - 2) \<le> 2 ^ 54"
    using sq assms by simp
  show "0 \<le> face_dofs_2d degree"
    using assms(1) by (simp add: face_dofs_2d_def pos_imp_zdiv_nonneg_iff)
qed

text \<open>
  C1.  On a two-dimensional cell (quadrilateral topology, first and last vertex with two
  coordinates, an injective unflattening table) and for every degree \<open>d \<ge> 1\<close> up to
  94906264, the Edge element is constructed, and its \<^verbatim>\<open>space_dimension()\<close> is \<open>4 d\<close> plus
  the face count \<open>2 T(d - 2) + d\<close> (0 when \<open>d = 1\<close>).  That is the allocator's total: the
  four vertices hold nothing, each of the four edges holds \<open>d\<close> degrees of freedom, the
  face holds the face count, and together the lists are exactly
  \<open>0, ..., space_dimension() - 1\<close>.  The order-0 basis array has twice as many scalar
  entries.  The bound on the degree is where the count reaches \<open>2^53\<close>: up to there the
  floating-point quotients of \<^verbatim>\<open>triangular_number\<close> and \<^verbatim>\<open>space_dimension\<close> are exact.
\<close>

theorem edge_2d_space_dimension:
  assumes "1 \<le> degree"
    and "degree \<le> 94906264"
    and "get_spatial_dimension (flatten_reference_cube ref) = 2"
    and "get_topology (flatten_reference_cube ref) = quadrilateral_topology"
    and "has_coords (get_vertices (flatten_reference_cube ref)) 2"
    and "inj (unflattening_map ref)"
  shows "\<exists>el b. TrimmedSerendipityEdge ref degree = Inr el
           \<and> space_dimension el = Inr (4 * degree + face_dofs_2d degree)
           \<and> map (\<lambda>kv. int (length (snd kv))) (entity_dofs el) =
               [0, 0, 0, 0, degree, degree, degree, degree, face_dofs_2d degree]
           \<and> all_dofs (entity_dofs el) = py_range 0 (4 * degree + face_dofs_2d degree)
           \<and> basis el (0, 0) = Some b
           \<and> array_len b = 2 * (4 * degree + face_dofs_2d degree)"
proof -
  let ?b = "Sminus_list_2d (get_vertices (flatten_reference_cube ref)) degree"
  let ?face = "if degree \<ge> 2
               then py_range (4 * degree) (4 * degree + face_dofs_2d degree)
               else []"
  note bounds = degree_bound_2d [OF assms(1,2)]
  obtain el where el: "TrimmedSerendipityEdge ref degree = Inr el"
    and b: "basis el (0, 0) = Some ?b"
    and ids: "map snd (entity_ids el) =
        [[], [], [], [], py_range 0 degree, py_range degree (2 * degree),
         py_range (2 * degree) (3 * degree), py_range (3 * degree) (4 * degree), ?face]"
    using edge_2d_constructed [OF assms(1) bounds(2) assms(3-6)] by simp
  have len: "array_len ?b = 2 * (4 * degree + face_dofs_2d degree)"
    using length_concat_rows [OF rows_Sminus_list_2d,
        of "get_vertices (flatten_reference_cube ref)" degree]
      length_Sminus_list_2d [OF assms(1), of "get_vertices (flatten_reference_cube ref)"]
    by (simp add: array_len_def)
  have nonneg: "0 \<le> 4 * degree + face_dofs_2d degree"
    using assms(1) bounds(3) by simp
  have face: "?face = py_range (4 * degree) (4 * degree + face_dofs_2d degree)"
    by (simp add: face_dofs_2d_def)
  have quot: "py_int_truediv (array_len ?b) 2 = Inr (4 * degree + face_dofs_2d degree)"
    using py_int_truediv_exact [OF nonneg bounds(1), of 2] len by (simp add: mult.commute)
  have dim: "space_dimension el = Inr (4 * degree + face_dofs_2d degree)"
    using b quot by (simp add: space_dimension_def dict_get_map_def)
  have counts: "map (\<lambda>kv. int (length (snd kv))) (entity_dofs el) =
      [0, 0, 0, 0, degree, degree, degree, degree, face_dofs_2d degree]"
  proof -
    have "map (\<lambda>kv. int (length (snd kv))) (entity_dofs el) =
          map (\<lambda>l. int (length l)) (map snd (entity_ids el))"
      by (simp add: entity_dofs_def comp_def)
    also have "\<dots> = [0, 0, 0, 0, degree, degree, degree, degree, face_dofs_2d degree]"
      unfolding ids face using assms(1) bounds(3) by simp
    finally show ?thesis .
  qed
  have cover: "all_dofs (entity_dofs el) = py_range 0 (4 * degree + face_dofs_2d degree)"
  proof -
    have "all_dofs (entity_dofs el) =
          py_range 0 degree @ py_range degree (2 * degree) @ py_range (2 * degree) (3 * degree)
          @ py_range (3 * degree) (4 * degree)
          @ py_range (4 * degree) (4 * degree + face_dofs_2d degree)"
      unfolding all_dofs_def entity_dofs_def ids face by simp
    also have "\<dots> = py_range 0 (4 * degree + face_dofs_2d degree)"
      using assms(1) bounds(3) by (simp add: py_range_append)
    finally show ?thesis .
  qed
  show ?thesis
    by (rule exI [of _ el], rule exI [of _ ?b]) (use el dim counts cover b len in simp)
qed

theorem edge_2d_space_dimension_witness:
  "\<exists>el b. TrimmedSerendipityEdge unit_square 3 = Inr el
      \<and> space_dimension el = Inr 17
      \<and> map (\<lambda>kv. int (length (snd kv))) (entity_dofs el) = [0, 0, 0, 0, 3, 3, 3, 3, 5]
      \<and> all_dofs (entity_dofs el) = [0, 1, 2, 3, 4, 5, 6, 7, 8, 9, 10, 11, 12, 13, 14, 15, 16]
      \<and> basis el (0, 0) = Some b
      \<and> array_len b = 34"
proof -
  have r: "py_range 0 17 = [0, 1, 2, 3, 4, 5, 6, 7, 8, 9, 10, 11, 12, 13, 14, 15, 16]"
    by code_simp
  show ?thesis
    using edge_2d_space_dimension [of 3 unit_square]
    by (simp add: unit_square_def has_coords_def face_dofs_2d_def r)
qed

subsection \<open>Construction errors\<close>

lemma edge_invalid:
  "degree < 1 \<or> (get_spatial_dimension (flatten_reference_cube ref) \<noteq> 2
                \<and> get_spatial_dimension (flatten_reference_cube ref) \<noteq> 3) \<Longrightarrow>
   TrimmedSerendipityEdge ref degree =
     Inl (Raise Exception
       (if degree < 1 then ''Trimmed Serendipity_k edge elements only valid for k >= 1''
        else ''Trimmed Serendipity_k edge elements only valid for dimensions 2 and 3''))"
  by (auto simp: TrimmedSerendipityEdge_def Let_def)

lemma face_invalid:
  "degree < 1 \<or> (get_spatial_dimension (flatten_reference_cube ref) \<noteq> 2
                \<and> get_spatial_dimension (flatten_reference_cube ref) \<noteq> 3) \<Longrightarrow>
   TrimmedSerendipityFace ref degree =
     Inl (Raise Exception
       (if degree < 1 then ''Trimmed serendipity face elements only valid for k >= 1''
        else ''Trimmed serendipity face elements only valid for dimensions 2 and 3''))"
  by (auto simp: TrimmedSerendipityFace_def Let_def)

text \<open>
  C8.  Constructing an Edge or a Face element with a degree below 1, or on a cell whose
  flattened spatial dimension is neither 2 nor 3, raises a plain \<^verbatim>\<open>Exception\<close> with a
  descriptive message.  The result is an error, never an element, and it is the same
  whatever the cell's vertices and topology are (the cell \<open>ref\<close> is arbitrary, so also
  one with no vertex at all, on which any look-up of the symbolic work would fail): the
  checks come before any symbolic work.
\<close>

theorem invalid_configuration_rejected:
  assumes "degree < 1 \<or> (get_spatial_dimension (flatten_reference_cube ref) \<noteq> 2
                        \<and> get_spatial_dimension (flatten_reference_cube ref) \<noteq> 3)"
  shows "TrimmedSerendipityEdge ref degree =
           Inl (Raise Exception
             (if degree < 1 then ''Trimmed Serendipity_k edge elements only valid for k >= 1''
              else ''Trimmed Serendipity_k edge elements only valid for dimensions 2 and 3''))
         \<and> TrimmedSerendipityFace ref degree =
           Inl (Raise Exception
             (if degree < 1 then ''Trimmed serendipity face elements only valid for k >= 1''
              else ''Trimmed serendipity face elements only valid for dimensions 2 and 3''))"
  using assms edge_invalid [of degree ref] face_invalid [of degree ref] by blast

theorem invalid_configuration_rejected_witness:
  "TrimmedSerendipityEdge unit_square 0 =
     Inl (Raise Exception ''Trimmed Serendipity_k edge elements only valid for k >= 1'')
   \<and> TrimmedSerendipityFace unit_square 0 =
     Inl (Raise Exception ''Trimmed serendipity face elements only valid for k >= 1'')
   \<and> TrimmedSerendipityEdge
       (unit_square\<lparr>flatten_reference_cube :=
          \<lparr>get_spatial_dimension = 4, get_vertices = [], get_topology = []\<rparr>\<rparr>) 1 =
     Inl (Raise Exception
            ''Trimmed Serendipity_k edge elements only valid for dimensions 2 and 3'')
   \<and> TrimmedSerendipityFace
       (unit_square\<lparr>flatten_reference_cube :=
          \<lparr>get_spatial_dimension = 4, get_vertices = [], get_topology = []\<rparr>\<rparr>) 1 =
     Inl (Raise Exception
            ''Trimmed serendipity face elements only valid for dimensions 2 and 3'')"
  using invalid_configuration_rejected [of 0 unit_square]
    invalid_configuration_rejected
      [of 1 "unit_square\<lparr>flatten_reference_cube :=
               \<lparr>get_spatial_dimension = 4, get_vertices = [], get_topology = []\<rparr>\<rparr>"]
  by simp

text \<open>
  C9.  On every element, \<^verbatim>\<open>get_nodal_basis\<close>, \<^verbatim>\<open>get_dual_set\<close>, \<^verbatim>\<open>get_coeffs\<close>, \<^verbatim>\<open>dmats\<close>
  and \<^verbatim>\<open>get_num_members\<close> raise \<^verbatim>\<open>NotImplementedError\<close> (the operations read no state, so
  the first call and every later one).  The error of an invalid configuration is not an
  instance of \<^verbatim>\<open>NotImplementedError\<close>, so a caller can tell the two apart.
\<close>

theorem unsupported_operations_not_implemented:
  "(\<exists>e. get_nodal_basis el = Inl e \<and> isinstance e NotImplementedError)
   \<and> (\<exists>e. get_dual_set el = Inl e \<and> isinstance e NotImplementedError)
   \<and> (\<exists>e. get_coeffs el = Inl e \<and> isinstance e NotImplementedError)
   \<and> (\<exists>e. dmats el = Inl e \<and> isinstance e NotImplementedError)
   \<and> (\<exists>e. get_num_members el arg = Inl e \<and> isinstance e NotImplementedError)
   \<and> (degree < 1 \<or> (get_spatial_dimension (flatten_reference_cube ref) \<noteq> 2
                     \<and> get_spatial_dimension (flatten_reference_cube ref) \<noteq> 3) \<longrightarrow>
        (\<exists>e. TrimmedSerendipityEdge ref degree = Inl e \<and> \<not> isinstance e NotImplementedError)
        \<and> (\<exists>e. TrimmedSerendipityFace ref degree = Inl e \<and> \<not> isinstance e NotImplementedError))"
  using edge_invalid [of degree ref] face_invalid [of degree ref]
  by (auto simp: get_nodal_basis_def get_dual_set_def get_coeffs_def dmats_def
        get_num_members_def)

theorem unsupported_operations_not_implemented_witness:
  "\<exists>el. TrimmedSerendipityEdge unit_square 1 = Inr el
       \<and> (\<exists>e. get_nodal_basis el = Inl e \<and> isinstance e NotImplementedError)
       \<and> (\<exists>e. get_dual_set el = Inl e \<and> isinstance e NotImplementedError)
       \<and> (\<exists>e. get_coeffs el = Inl e \<and> isinstance e NotImplementedError)
       \<and> (\<exists>e. dmats el = Inl e \<and> isinstance e NotImplementedError)
       \<and> (\<exists>e. get_num_members el () = Inl e \<and> isinstance e NotImplementedError)
       \<and> (\<exists>e. TrimmedSerendipityEdge unit_square 0 = Inl e
              \<and> \<not> isinstance e NotImplementedError)
       \<and> (\<exists>e. TrimmedSerendipityFace unit_square 0 = Inl e
              \<and> \<not> isinstance e NotImplementedError)"
proof -
  obtain el where el: "TrimmedSerendipityEdge unit_square 1 = Inr el"
    using edge_2d_constructed [of 1 unit_square]
    by (simp add: unit_square_def has_coords_def)
  show ?thesis
    using el unsupported_operations_not_implemented [of el "()" 0 unit_square]
    by simp
qed

subsection \<open>The interior count in three dimensions\<close>









subsection \<open>The edge block of the two-dimensional Edge basis\<close>






subsection \<open>The Face element in two dimensions\<close>



subsection \<open>The entity lists and the space dimension in three dimensions\<close>


text \<open>
On the unit cube at degree 4 the Face basis has 117 entries of two components, so
  \<^verbatim>\<open>space_dimension()\<close> is 117, while the allocator hands out \<open>0, ..., 101\<close>: from degree 4
  on it gives each face \<open>3 d - 4\<close> degrees of freedom and the interior 6, and the
  generators produce \<open>2 T(d - 2) + d\<close> terms per face and 9 interior terms.
\<close>

theorem face_3d_space_dimension_mismatch:
  "(case TrimmedSerendipityFace unit_cube 4 of
      Inl e \<Rightarrow> False
    | Inr el \<Rightarrow>
        space_dimension el = Inr 117
        \<and> int (length (all_dofs (entity_dofs el))) = 102
        \<and> all_dofs (entity_dofs el) = py_range 0 102)"
  by code_simp

subsection \<open>The interior terms in three dimensions\<close>

lemma filter_upto_last:
  "0 \<le> m \<Longrightarrow> filter (\<lambda>c. k + c = k + m) [0..m] = [m]"
proof -
  assume m: "0 \<le> m"
  have "filter (\<lambda>c. k + c = k + m) [0..m] = filter (\<lambda>c. c = m) ([0..m - 1] @ [m])"
    using m upto_rec2 [of 0 m] by simp
  also have "\<dots> = [m]"
    by (simp add: filter_empty_conv)
  finally show ?thesis .
qed

text \<open>
From degree 4 on, \<^verbatim>\<open>determine_I_lambda_1_portions_3d\<close> lists exactly the triples
  \<open>(a, b, c)\<close> of non-negative integers with \<open>a + b + c = deg - 4\<close>, in the order of the
  nested loops: \<open>a\<close> ascending, then \<open>b\<close> ascending, \<open>c\<close> being what is left.
\<close>

lemma determine_I_lambda_1_portions_3d_enumeration:
  assumes "4 \<le> deg"
  shows "determine_I_lambda_1_portions_3d deg =
           concat (map (\<lambda>a. map (\<lambda>b. (a, b, deg - 4 - a - b)) [0..deg - 4 - a]) [0..deg - 4])"
proof -
  have inner: "filter (\<lambda>degs. fst degs + fst (snd degs) + snd (snd degs) = deg - 4)
                 (map (\<lambda>c. (a, b, c)) [0..deg - 4 - a - b]) = [(a, b, deg - 4 - a - b)]"
    if "b \<in> set [0..deg - 4 - a]" for a b
  proof -
    from that have m: "0 \<le> deg - 4 - a - b" by simp
    have "filter (\<lambda>degs. fst degs + fst (snd degs) + snd (snd degs) = deg - 4)
            (map (\<lambda>c. (a, b, c)) [0..deg - 4 - a - b]) =
          map (\<lambda>c. (a, b, c))
            (filter (\<lambda>c. (a + b) + c = (a + b) + (deg - 4 - a - b)) [0..deg - 4 - a - b])"
      by (simp add: filter_map comp_def)
    also have "\<dots> = [(a, b, deg - 4 - a - b)]"
      unfolding filter_upto_last [OF m] by simp
    finally show ?thesis .
  qed
  have middle: "filter (\<lambda>degs. fst degs + fst (snd degs) + snd (snd degs) = deg - 4)
                  (concat (map (\<lambda>b. map (\<lambda>c. (a, b, c)) [0..deg - 4 - a - b]) [0..deg - 4 - a])) =
                map (\<lambda>b. (a, b, deg - 4 - a - b)) [0..deg - 4 - a]" for a
  proof -
    have "filter (\<lambda>degs. fst degs + fst (snd degs) + snd (snd degs) = deg - 4)
            (concat (map (\<lambda>b. map (\<lambda>c. (a, b, c)) [0..deg - 4 - a - b]) [0..deg - 4 - a])) =
          concat (map (\<lambda>b. filter (\<lambda>degs. fst degs + fst (snd degs) + snd (snd degs) = deg - 4)
                               (map (\<lambda>c. (a, b, c)) [0..deg - 4 - a - b])) [0..deg - 4 - a])"
      by (simp add: filter_concat comp_def)
    also have "\<dots> = concat (map (\<lambda>b. [(a, b, deg - 4 - a - b)]) [0..deg - 4 - a])"
      using inner by (intro arg_cong [where f = concat] map_cong refl) blast
    also have "\<dots> = map (\<lambda>b. (a, b, deg - 4 - a - b)) [0..deg - 4 - a]"
      by (induction "[0..deg - 4 - a]") simp_all
    finally show ?thesis .
  qed
  have "determine_I_lambda_1_portions_3d deg =
        filter (\<lambda>degs. fst degs + fst (snd degs) + snd (snd degs) = deg - 4)
          (concat (map (\<lambda>a. concat (map (\<lambda>b. map (\<lambda>c. (a, b, c)) [0..deg - 4 - a - b])
                                      [0..deg - 4 - a])) [0..deg - 4]))"
    using assms
    by (simp add: determine_I_lambda_1_portions_3d_def py_range_def Let_def algebra_simps)
  also have "\<dots> =
        concat (map (\<lambda>a. filter (\<lambda>degs. fst degs + fst (snd degs) + snd (snd degs) = deg - 4)
                     (concat (map (\<lambda>b. map (\<lambda>c. (a, b, c)) [0..deg - 4 - a - b])
                                [0..deg - 4 - a]))) [0..deg - 4])"
    by (subst filter_concat) (simp only: map_map comp_def)
  also have "\<dots> = concat (map (\<lambda>a. map (\<lambda>b. (a, b, deg - 4 - a - b)) [0..deg - 4 - a]) [0..deg - 4])"
    by (simp only: middle)
  finally show ?thesis .
qed


end
